theory Spec2Isabelle
  imports Complex_Main
begin

section \<open>The TensorFlow backend of TensorNetwork\<close>

text \<open>
  The class \<^verbatim>\<open>TensorFlowBackend\<close> of
  \<^verbatim>\<open>tensornetwork/backends/tensorflow/tensorflow_backend.py\<close> forwards every
  operation to the TensorFlow module it holds in \<^verbatim>\<open>self.tf\<close>, after a few checks of
  its own. The module is not part of the repository, so it is a parameter of the
  embedding: a record with one field for each library function the methods below call.
  Every method takes the backend object \<^verbatim>\<open>self\<close> first, as in the source. What
  is proved of a method's own checks and of what it hands to the library holds for
  every library; where a statement needs more of the library, it says what.
\<close>

subsection \<open>Exceptions and data types\<close>

text \<open>
  The exceptions a call can end with. \<open>ValueError\<close> is the class the source raises
  for a malformed argument (the specification calls it ArgumentError).
  \<open>InvalidArgumentError\<close> stands for \<^verbatim>\<open>tf.errors.InvalidArgumentError\<close>, an
  exception class of the library that is not a \<open>ValueError\<close>.
\<close>

datatype error =
    ImportError string
  | ValueError string
  | NotImplementedError string
  | InvalidArgumentError string

text \<open>Which outcomes are a \<open>ValueError\<close>, and which a \<open>NotImplementedError\<close>.\<close>

fun is_ValueError :: "error + 'a \<Rightarrow> bool" where
  "is_ValueError (Inl (ValueError msg)) = True"
| "is_ValueError r = False"

fun is_NotImplementedError :: "error + 'a \<Rightarrow> bool" where
  "is_NotImplementedError (Inl (NotImplementedError msg)) = True"
| "is_NotImplementedError r = False"

text \<open>
  The \<^verbatim>\<open>tf.DType\<close> objects. A dtype argument is one of them: the source compares it
  by identity with \<^verbatim>\<open>self.tf.complex128\<close> and \<^verbatim>\<open>self.tf.complex64\<close> and reads its
  attribute \<^verbatim>\<open>real_dtype\<close>.
\<close>

datatype dtype =
    Float16 | Float32 | Float64
  | Complex64 | Complex128
  | Int32 | Int64

text \<open>The attribute \<^verbatim>\<open>dtype.real_dtype\<close>.\<close>

fun real_dtype :: "dtype \<Rightarrow> dtype" where
  "real_dtype Complex64 = Float32"
| "real_dtype Complex128 = Float64"
| "real_dtype d = d"

text \<open>
  An argument of \<^verbatim>\<open>tf.concat\<close>: a tensor or a Python list of integers.
\<close>

datatype 't tensor_like = Tensor 't | PyList "int list"

subsection \<open>The library module\<close>

text \<open>
  \<open>'t\<close> is the library's tensor type, opaque to the backend, and \<open>'g\<close> the global
  state of the library's random generator. A library function that can raise returns
  \<open>error + 't\<close>; the functions of \<^verbatim>\<open>tf.random\<close> read and change the generator
  state, the other functions do neither. \<open>tensor_shape\<close> and \<open>tensor_dtype\<close> are the
  attributes \<^verbatim>\<open>tensor.shape\<close> and \<^verbatim>\<open>tensor.dtype\<close> (static shapes, fully defined),
  \<open>str_tensor\<close> and \<open>str_shape\<close> are what \<^verbatim>\<open>str.format\<close> prints for a tensor and for
  a \<^verbatim>\<open>TensorShape\<close>, and \<open>tf_multiply\<close> is the tensor's operator \<^verbatim>\<open>*\<close>.
\<close>

record ('t, 'g) tensorflow =
  tensor_shape :: "'t \<Rightarrow> nat list"
  tensor_dtype :: "'t \<Rightarrow> dtype"
  str_tensor :: "'t \<Rightarrow> string"
  str_shape :: "nat list \<Rightarrow> string"
  tf_shape :: "'t \<Rightarrow> 't"
  tf_concat :: "'t tensor_like list \<Rightarrow> int \<Rightarrow> error + 't"
  tf_reshape :: "'t \<Rightarrow> 't \<Rightarrow> error + 't"
  tf_slice :: "'t \<Rightarrow> int list \<Rightarrow> int list \<Rightarrow> error + 't"
  tf_eye :: "int \<Rightarrow> int option \<Rightarrow> dtype \<Rightarrow> error + 't"
  tf_ones :: "int list \<Rightarrow> dtype \<Rightarrow> error + 't"
  tf_zeros :: "int list \<Rightarrow> dtype \<Rightarrow> error + 't"
  tf_complex :: "'t \<Rightarrow> 't \<Rightarrow> error + 't"
  tf_multiply :: "'t \<Rightarrow> 't \<Rightarrow> error + 't"
  tf_linalg_inv :: "'t \<Rightarrow> error + 't"
  tf_linalg_expm :: "'t \<Rightarrow> error + 't"
  tf_random_set_seed :: "int \<Rightarrow> 'g \<Rightarrow> 'g"
  tf_random_normal :: "int list \<Rightarrow> dtype \<Rightarrow> 'g \<Rightarrow> (error + 't) \<times> 'g"
  tf_random_uniform :: "int list \<Rightarrow> real \<Rightarrow> real \<Rightarrow> dtype \<Rightarrow> 'g \<Rightarrow> (error + 't) \<times> 'g"

subsection \<open>The backend object\<close>

record ('t, 'g) backend =
  tf :: "('t, 'g) tensorflow"
  name :: string

text \<open>
  \<^verbatim>\<open>__init__\<close>: the argument is what \<^verbatim>\<open>import tensorflow\<close> finds, \<open>None\<close> when the
  library is not installed.
\<close>

definition init :: "('t, 'g) tensorflow option \<Rightarrow> error + ('t, 'g) backend" where
  "init installed =
     (case installed of
        None \<Rightarrow> Inl (ImportError
          ''Tensorflow not installed, please switch to a different backend or install Tensorflow.'')
      | Some lib \<Rightarrow> Inr \<lparr>tf = lib, name = ''tensorflow''\<rparr>)"

subsection \<open>Message formatting\<close>

text \<open>
  Python's \<^verbatim>\<open>str.format\<close> on the templates of this file: a field \<^verbatim>\<open>{}\<close> takes the
  next positional argument, a field \<^verbatim>\<open>{x}\<close> the keyword argument of that name. The
  first argument of \<open>format_from\<close> is the field name read so far, \<open>None\<close> outside a
  field. Every template below has as many arguments as fields.
\<close>

fun format_from ::
  "string option \<Rightarrow> string \<Rightarrow> string list \<Rightarrow> (string \<times> string) list \<Rightarrow> string" where
  "format_from None [] args kwargs = []"
| "format_from None (c # cs) args kwargs =
     (if c = CHR ''{'' then format_from (Some []) cs args kwargs
      else c # format_from None cs args kwargs)"
| "format_from (Some field) [] args kwargs = []"
| "format_from (Some field) (c # cs) args kwargs =
     (if c \<noteq> CHR ''}'' then format_from (Some (field @ [c])) cs args kwargs
      else if field = []
      then (case args of
              [] \<Rightarrow> format_from None cs args kwargs
            | a # rest \<Rightarrow> a @ format_from None cs rest kwargs)
      else (case map_of kwargs field of
              None \<Rightarrow> format_from None cs args kwargs
            | Some v \<Rightarrow> v @ format_from None cs args kwargs))"

definition format :: "string \<Rightarrow> string list \<Rightarrow> (string \<times> string) list \<Rightarrow> string" where
  "format template args kwargs = format_from None template args kwargs"

text \<open>Python prints an integer in decimal.\<close>

fun str_nat :: "nat \<Rightarrow> string" where
  "str_nat n =
     (if n < 10 then [''0123456789'' ! n]
      else str_nat (n div 10) @ [''0123456789'' ! (n mod 10)])"

declare str_nat.simps [simp del]

subsection \<open>Shape operations\<close>

definition reshape :: "('t, 'g) backend \<Rightarrow> 't \<Rightarrow> 't \<Rightarrow> error + 't" where
  "reshape self tensor shape = tf_reshape (tf self) tensor shape"

definition slice ::
  "('t, 'g) backend \<Rightarrow> 't \<Rightarrow> int list \<Rightarrow> int list \<Rightarrow> error + 't" where
  "slice self tensor start_indices slice_sizes =
     (if length start_indices \<noteq> length slice_sizes
      then Inl (ValueError ''Lengths of start_indices and slice_sizes must beidentical.'')
      else tf_slice (tf self) tensor start_indices slice_sizes)"

definition shape_concat ::
  "('t, 'g) backend \<Rightarrow> 't tensor_like list \<Rightarrow> int \<Rightarrow> error + 't" where
  "shape_concat self values axis = tf_concat (tf self) values axis"

definition shape_tensor :: "('t, 'g) backend \<Rightarrow> 't \<Rightarrow> 't" where
  "shape_tensor self tensor = tf_shape (tf self) tensor"

subsection \<open>Constructors\<close>

text \<open>
  \<^verbatim>\<open>dtype = dtype if dtype is not None else self.tf.float64\<close> is the first line of
  \<^verbatim>\<open>eye\<close>, \<^verbatim>\<open>ones\<close> and \<^verbatim>\<open>zeros\<close>.
\<close>

definition eye :: "('t, 'g) backend \<Rightarrow> int \<Rightarrow> dtype option \<Rightarrow> int option \<Rightarrow> error + 't" where
  "eye self N dtype M =
     (let dtype = (case dtype of Some d \<Rightarrow> d | None \<Rightarrow> Float64)
      in tf_eye (tf self) N M dtype)"

definition ones :: "('t, 'g) backend \<Rightarrow> int list \<Rightarrow> dtype option \<Rightarrow> error + 't" where
  "ones self shape dtype =
     (let dtype = (case dtype of Some d \<Rightarrow> d | None \<Rightarrow> Float64)
      in tf_ones (tf self) shape dtype)"

definition zeros :: "('t, 'g) backend \<Rightarrow> int list \<Rightarrow> dtype option \<Rightarrow> error + 't" where
  "zeros self shape dtype =
     (let dtype = (case dtype of Some d \<Rightarrow> d | None \<Rightarrow> Float64)
      in tf_zeros (tf self) shape dtype)"

subsection \<open>Random tensors\<close>

text \<open>
  \<^verbatim>\<open>if seed:\<close> on an optional integer: \<^verbatim>\<open>None\<close> and \<^verbatim>\<open>0\<close> are false, every
  other integer is true.
\<close>

fun truthy :: "int option \<Rightarrow> bool" where
  "truthy None = False"
| "truthy (Some s) = (s \<noteq> 0)"

text \<open>
  Both methods take the generator state and return it with the result. The arguments
  of \<^verbatim>\<open>tf.complex\<close> are evaluated from left to right, so an exception of the first
  draw ends the call before the second draw.
\<close>

definition randn ::
  "('t, 'g) backend \<Rightarrow> int list \<Rightarrow> dtype option \<Rightarrow> int option \<Rightarrow> 'g \<Rightarrow> (error + 't) \<times> 'g" where
  "randn self shape dtype seed g =
     (let g = (if truthy seed then tf_random_set_seed (tf self) (the seed) g else g);
          dtype = (case dtype of Some d \<Rightarrow> d | None \<Rightarrow> Float64)
      in if dtype = Complex128 \<or> dtype = Complex64
         then (case tf_random_normal (tf self) shape (real_dtype dtype) g of
                 (Inl e, g) \<Rightarrow> (Inl e, g)
               | (Inr re, g) \<Rightarrow>
                   (case tf_random_normal (tf self) shape (real_dtype dtype) g of
                      (Inl e, g) \<Rightarrow> (Inl e, g)
                    | (Inr im, g) \<Rightarrow> (tf_complex (tf self) re im, g)))
         else tf_random_normal (tf self) shape dtype g)"

text \<open>
  \<open>boundaries\<close> is a pair, as its default \<^verbatim>\<open>(0.0, 1.0)\<close>; the two bounds are only
  handed on to the library.
\<close>

definition random_uniform ::
  "('t, 'g) backend \<Rightarrow> int list \<Rightarrow> real \<times> real \<Rightarrow> dtype option \<Rightarrow> int option \<Rightarrow> 'g
     \<Rightarrow> (error + 't) \<times> 'g" where
  "random_uniform self shape boundaries dtype seed g =
     (let g = (if truthy seed then tf_random_set_seed (tf self) (the seed) g else g);
          dtype = (case dtype of Some d \<Rightarrow> d | None \<Rightarrow> Float64)
      in if dtype = Complex128 \<or> dtype = Complex64
         then (case tf_random_uniform (tf self) shape (fst boundaries) (snd boundaries)
                      (real_dtype dtype) g of
                 (Inl e, g) \<Rightarrow> (Inl e, g)
               | (Inr re, g) \<Rightarrow>
                   (case tf_random_uniform (tf self) shape (fst boundaries) (snd boundaries)
                           (real_dtype dtype) g of
                      (Inl e, g) \<Rightarrow> (Inl e, g)
                    | (Inr im, g) \<Rightarrow> (tf_complex (tf self) re im, g)))
         else (let g = tf_random_set_seed (tf self) 10 g
               in tf_random_uniform (tf self) shape (fst boundaries) (snd boundaries) dtype g))"

subsection \<open>Eigensolvers\<close>

text \<open>Neither method looks at an argument; \<open>'a\<close> is the type of the linear operator.\<close>

definition eigs ::
  "('t, 'g) backend \<Rightarrow> 'a \<Rightarrow> 't option \<Rightarrow> int option \<Rightarrow> int option \<Rightarrow> real option
     \<Rightarrow> string option \<Rightarrow> int option \<Rightarrow> dtype option \<Rightarrow> error + 't list \<times> 't list" where
  "eigs self A initial_state num_krylov_vecs numeig tol which maxiter dtype =
     Inl (NotImplementedError
       (format ''Backend '{}' has not implemented eigs.'' [name self] []))"

definition eigsh_lanczos ::
  "('t, 'g) backend \<Rightarrow> 'a \<Rightarrow> 't option \<Rightarrow> int option \<Rightarrow> int option \<Rightarrow> real option
     \<Rightarrow> real option \<Rightarrow> int option \<Rightarrow> bool option \<Rightarrow> error + 't list \<times> 't list" where
  "eigsh_lanczos self A initial_state num_krylov_vecs numeig tol delta ndiag reorthogonalize =
     Inl (NotImplementedError
       (format ''Backend '{}' has not implemented eighs_lanczos.'' [name self] []))"

subsection \<open>Matrix functions and broadcasting\<close>

text \<open>\<^verbatim>\<open>inv\<close>; the name \<open>inv\<close> is taken by the inverse of a function in HOL.\<close>

definition inv_tensor :: "('t, 'g) backend \<Rightarrow> 't \<Rightarrow> error + 't" where
  "inv_tensor self matrix =
     (if length (tensor_shape (tf self) matrix) > 2
      then Inl (ValueError
        (format ''input to tensorflow backend method `inv` has shape {}. Only matrices are supported.''
           [str_tensor (tf self) (tf_shape (tf self) matrix)] []))
      else tf_linalg_inv (tf self) matrix)"

definition broadcast_right_multiplication ::
  "('t, 'g) backend \<Rightarrow> 't \<Rightarrow> 't \<Rightarrow> error + 't" where
  "broadcast_right_multiplication self tensor1 tensor2 =
     (if length (tensor_shape (tf self) tensor2) \<noteq> 1
      then Inl (ValueError
        (format ''only order-1 tensors are allowed for `tensor2`, found `tensor2.shape = {}`''
           [str_tensor (tf self) (tf_shape (tf self) tensor2)] []))
      else tf_multiply (tf self) tensor1 tensor2)"

text \<open>
  \<^verbatim>\<open>[1] * k\<close> is the empty list when \<^verbatim>\<open>k\<close> is negative, which happens for a
  \<open>tensor2\<close> of rank 0.
\<close>

definition broadcast_left_multiplication ::
  "('t, 'g) backend \<Rightarrow> 't \<Rightarrow> 't \<Rightarrow> error + 't" where
  "broadcast_left_multiplication self tensor1 tensor2 =
     (if length (tensor_shape (tf self) tensor1) \<noteq> 1
      then Inl (ValueError
        (format ''only order-1 tensors are allowed for `tensor1`, found `tensor1.shape = {}`''
           [str_tensor (tf self) (tf_shape (tf self) tensor1)] []))
      else (case shape_concat self
                   [Tensor (shape_tensor self tensor1),
                    PyList (replicate (nat (int (length (tensor_shape (tf self) tensor2)) - 1)) 1)]
                   (- 1) of
              Inl e \<Rightarrow> Inl e
            | Inr t1_broadcast_shape \<Rightarrow>
                (case reshape self tensor1 t1_broadcast_shape of
                   Inl e \<Rightarrow> Inl e
                 | Inr reshaped \<Rightarrow> tf_multiply (tf self) tensor2 reshaped)))"

definition expm :: "('t, 'g) backend \<Rightarrow> 't \<Rightarrow> error + 't" where
  "expm self matrix =
     (if length (tensor_shape (tf self) matrix) \<noteq> 2
      then Inl (ValueError
        (format ''input to tensorflow backend method `expm` has shape {}. Only matrices are supported.''
           [str_shape (tf self) (tensor_shape (tf self) matrix)] []))
      else if tensor_shape (tf self) matrix ! 0 \<noteq> tensor_shape (tf self) matrix ! 1
      then Inl (ValueError
        (format ''input to tensorflow backend method `expm` only supportsN*N matrix, {x}*{y} matrix is given''
           []
           [(''x'', str_nat (tensor_shape (tf self) matrix ! 0)),
            (''y'', str_nat (tensor_shape (tf self) matrix ! 1))]))
      else tf_linalg_expm (tf self) matrix)"

section \<open>A library to evaluate the backend on\<close>

text \<open>
  The theorems below hold for every library. To run the methods on concrete tensors
  one library is written out here: its tensors are symbolic, an expression that names
  the operation a tensor came from, with the static shape and the dtype the operation
  gives it, and no numbers. A product and a reshaped tensor keep the shapes of their
  operands. An operation rejects ill-shaped arguments with the library's own
  \<open>InvalidArgumentError\<close>, as TensorFlow does when it executes eagerly. The generator
  state is the seed last set and the number of draws since.
\<close>

datatype expr =
    Input nat
  | IntVector "int list"
  | Eye
  | Ones
  | Zeros
  | Normal "int option" nat
  | Uniform real real "int option" nat
  | ComplexOf expr expr
  | Multiply expr "nat list" expr "nat list"
  | Reshape expr "nat list"
  | Slice expr "int list"
  | MatrixInverse expr
  | MatrixExponential expr

record sym_tensor =
  st_node :: expr
  st_shape :: "nat list"
  st_dtype :: dtype

record rng =
  global_seed :: "int option"
  draws :: nat

definition is_floating :: "dtype \<Rightarrow> bool" where
  "is_floating d = (d = Float16 \<or> d = Float32 \<or> d = Float64)"

definition is_complex :: "dtype \<Rightarrow> bool" where
  "is_complex d = (d = Complex64 \<or> d = Complex128)"

fun join :: "string \<Rightarrow> string list \<Rightarrow> string" where
  "join sep [] = []"
| "join sep [x] = x"
| "join sep (x # y # ys) = x @ sep @ join sep (y # ys)"

definition sym_str_shape :: "nat list \<Rightarrow> string" where
  "sym_str_shape dims =
     (if length dims = 1 then ''('' @ str_nat (hd dims) @ '',)''
      else ''('' @ join '', '' (map str_nat dims) @ '')'')"

definition sym_str_tensor :: "sym_tensor \<Rightarrow> string" where
  "sym_str_tensor t = ''Tensor(shape='' @ sym_str_shape (st_shape t) @ '')''"

definition int_vector :: "int list \<Rightarrow> sym_tensor" where
  "int_vector xs = \<lparr>st_node = IntVector xs, st_shape = [length xs], st_dtype = Int32\<rparr>"

definition sym_shape :: "sym_tensor \<Rightarrow> sym_tensor" where
  "sym_shape t = int_vector (map int (st_shape t))"

fun as_int_list :: "sym_tensor tensor_like \<Rightarrow> int list option" where
  "as_int_list (PyList xs) = Some xs"
| "as_int_list (Tensor t) = (case st_node t of IntVector xs \<Rightarrow> Some xs | _ \<Rightarrow> None)"

definition sym_concat :: "sym_tensor tensor_like list \<Rightarrow> int \<Rightarrow> error + sym_tensor" where
  "sym_concat values axis =
     (if (axis = 0 \<or> axis = - 1) \<and> values \<noteq> [] \<and> list_all (\<lambda>v. as_int_list v \<noteq> None) values
      then Inr (int_vector (concat (map (\<lambda>v. the (as_int_list v)) values)))
      else Inl (InvalidArgumentError ''concat: expected vectors of integers''))"

definition sym_reshape :: "sym_tensor \<Rightarrow> sym_tensor \<Rightarrow> error + sym_tensor" where
  "sym_reshape t s =
     (case st_node s of
        IntVector dims \<Rightarrow>
          if list_all (\<lambda>d. 0 \<le> d) dims \<and> prod_list (map nat dims) = prod_list (st_shape t)
          then Inr \<lparr>st_node = Reshape (st_node t) (st_shape t), st_shape = map nat dims,
                    st_dtype = st_dtype t\<rparr>
          else Inl (InvalidArgumentError ''reshape: the number of elements differs'')
      | _ \<Rightarrow> Inl (InvalidArgumentError ''reshape: the shape is not a vector of integers''))"

definition slice_ok :: "nat \<times> int \<times> int \<Rightarrow> bool" where
  "slice_ok x = (case x of (d, b, s) \<Rightarrow> 0 \<le> b \<and> 0 \<le> s \<and> b + s \<le> int d)"

definition sym_slice :: "sym_tensor \<Rightarrow> int list \<Rightarrow> int list \<Rightarrow> error + sym_tensor" where
  "sym_slice t begin sizes =
     (if length begin = length (st_shape t) \<and> length sizes = length (st_shape t)
         \<and> list_all slice_ok (zip (st_shape t) (zip begin sizes))
      then Inr \<lparr>st_node = Slice (st_node t) begin, st_shape = map nat sizes,
                st_dtype = st_dtype t\<rparr>
      else Inl (InvalidArgumentError ''slice: begin and size do not fit the tensor''))"

definition sym_eye :: "int \<Rightarrow> int option \<Rightarrow> dtype \<Rightarrow> error + sym_tensor" where
  "sym_eye num_rows num_columns d =
     (let columns = (case num_columns of None \<Rightarrow> num_rows | Some m \<Rightarrow> m)
      in if 0 \<le> num_rows \<and> 0 \<le> columns
         then Inr \<lparr>st_node = Eye, st_shape = [nat num_rows, nat columns], st_dtype = d\<rparr>
         else Inl (InvalidArgumentError ''eye: negative dimension''))"

definition sym_fill :: "expr \<Rightarrow> int list \<Rightarrow> dtype \<Rightarrow> error + sym_tensor" where
  "sym_fill e dims d =
     (if list_all (\<lambda>k. 0 \<le> k) dims
      then Inr \<lparr>st_node = e, st_shape = map nat dims, st_dtype = d\<rparr>
      else Inl (InvalidArgumentError ''negative dimension''))"

text \<open>The broadcasting rule for two shapes, aligned at their last axes.\<close>

fun broadcast_rev :: "nat list \<Rightarrow> nat list \<Rightarrow> nat list option" where
  "broadcast_rev [] ys = Some ys"
| "broadcast_rev (x # xs) [] = Some (x # xs)"
| "broadcast_rev (x # xs) (y # ys) =
     (if x = y \<or> x = 1 \<or> y = 1
      then map_option (\<lambda>r. (if x = 1 then y else x) # r) (broadcast_rev xs ys)
      else None)"

definition broadcast_shape :: "nat list \<Rightarrow> nat list \<Rightarrow> nat list option" where
  "broadcast_shape xs ys = map_option rev (broadcast_rev (rev xs) (rev ys))"

definition sym_multiply :: "sym_tensor \<Rightarrow> sym_tensor \<Rightarrow> error + sym_tensor" where
  "sym_multiply a b =
     (if st_dtype a \<noteq> st_dtype b
      then Inl (InvalidArgumentError ''multiply: the dtypes differ'')
      else (case broadcast_shape (st_shape a) (st_shape b) of
              None \<Rightarrow> Inl (InvalidArgumentError ''Incompatible shapes'')
            | Some s \<Rightarrow>
                Inr \<lparr>st_node = Multiply (st_node a) (st_shape a) (st_node b) (st_shape b),
                     st_shape = s, st_dtype = st_dtype a\<rparr>))"

definition sym_complex :: "sym_tensor \<Rightarrow> sym_tensor \<Rightarrow> error + sym_tensor" where
  "sym_complex re im =
     (if st_dtype re \<noteq> st_dtype im \<or> (st_dtype re \<noteq> Float32 \<and> st_dtype re \<noteq> Float64)
      then Inl (InvalidArgumentError ''complex: expected two float32 or two float64 tensors'')
      else (case broadcast_shape (st_shape re) (st_shape im) of
              None \<Rightarrow> Inl (InvalidArgumentError ''Incompatible shapes'')
            | Some s \<Rightarrow>
                Inr \<lparr>st_node = ComplexOf (st_node re) (st_node im), st_shape = s,
                     st_dtype = (if st_dtype re = Float32 then Complex64 else Complex128)\<rparr>))"

definition is_square :: "nat list \<Rightarrow> bool" where
  "is_square dims = (2 \<le> length dims \<and> last dims = last (butlast dims))"

definition sym_matrix_op :: "(expr \<Rightarrow> expr) \<Rightarrow> sym_tensor \<Rightarrow> error + sym_tensor" where
  "sym_matrix_op f t =
     (if \<not> is_square (st_shape t)
      then Inl (InvalidArgumentError ''Input matrix must be square.'')
      else if \<not> is_floating (st_dtype t) \<and> \<not> is_complex (st_dtype t)
      then Inl (InvalidArgumentError ''expected a floating point or complex tensor'')
      else Inr (t\<lparr>st_node := f (st_node t)\<rparr>))"

text \<open>
  \<^verbatim>\<open>tf.linalg.expm\<close> is written in Python and raises a \<open>ValueError\<close> of its own for a
  dtype it does not support.
\<close>

fun dtype_name :: "dtype \<Rightarrow> string" where
  "dtype_name Float16 = ''float16''"
| "dtype_name Float32 = ''float32''"
| "dtype_name Float64 = ''float64''"
| "dtype_name Complex64 = ''complex64''"
| "dtype_name Complex128 = ''complex128''"
| "dtype_name Int32 = ''int32''"
| "dtype_name Int64 = ''int64''"

definition sym_expm :: "sym_tensor \<Rightarrow> error + sym_tensor" where
  "sym_expm t =
     (if \<not> is_floating (st_dtype t) \<and> \<not> is_complex (st_dtype t)
      then Inl (ValueError
        (format ''tf.linalg.expm does not support matrices of type <dtype: '{}'>''
           [dtype_name (st_dtype t)] []))
      else sym_matrix_op MatrixExponential t)"

definition sym_set_seed :: "int \<Rightarrow> rng \<Rightarrow> rng" where
  "sym_set_seed s g = \<lparr>global_seed = Some s, draws = 0\<rparr>"

definition sym_draw ::
  "(int option \<Rightarrow> nat \<Rightarrow> expr) \<Rightarrow> int list \<Rightarrow> dtype \<Rightarrow> rng \<Rightarrow> (error + sym_tensor) \<times> rng" where
  "sym_draw sample dims d g =
     (if list_all (\<lambda>k. 0 \<le> k) dims \<and> is_floating d
      then (Inr \<lparr>st_node = sample (global_seed g) (draws g), st_shape = map nat dims,
                 st_dtype = d\<rparr>,
            g\<lparr>draws := Suc (draws g)\<rparr>)
      else (Inl (InvalidArgumentError ''random: negative dimension or unsupported dtype''), g))"

definition sym_tf :: "(sym_tensor, rng) tensorflow" where
  "sym_tf =
     \<lparr>tensor_shape = st_shape,
      tensor_dtype = st_dtype,
      str_tensor = sym_str_tensor,
      str_shape = sym_str_shape,
      tf_shape = sym_shape,
      tf_concat = sym_concat,
      tf_reshape = sym_reshape,
      tf_slice = sym_slice,
      tf_eye = sym_eye,
      tf_ones = sym_fill Ones,
      tf_zeros = sym_fill Zeros,
      tf_complex = sym_complex,
      tf_multiply = sym_multiply,
      tf_linalg_inv = sym_matrix_op MatrixInverse,
      tf_linalg_expm = sym_expm,
      tf_random_set_seed = sym_set_seed,
      tf_random_normal = sym_draw Normal,
      tf_random_uniform = (\<lambda>dims lo hi. sym_draw (Uniform lo hi) dims)\<rparr>"

text \<open>The backend that \<open>init\<close> builds on this library, and a tensor given from outside.\<close>

definition sym_backend :: "(sym_tensor, rng) backend" where
  "sym_backend = \<lparr>tf = sym_tf, name = ''tensorflow''\<rparr>"

definition input :: "nat \<Rightarrow> nat list \<Rightarrow> dtype \<Rightarrow> sym_tensor" where
  "input k dims d = \<lparr>st_node = Input k, st_shape = dims, st_dtype = d\<rparr>"

definition fresh :: rng where
  "fresh = \<lparr>global_seed = None, draws = 0\<rparr>"

subsection \<open>The entries of a symbolic tensor\<close>

text \<open>
  The entry of a symbolic tensor at an index is symbolic too: an entry of a tensor given
  from outside, a number, or a product of two entries. A product follows the
  broadcasting rule: the two shapes are aligned at their last axes, and along an axis
  of length 1 the one entry is repeated. A reshaped tensor keeps its entries in
  row-major order. Draws, slices and the matrix functions have no entries here.
\<close>

datatype scalar = Entry nat "nat list" | Number int | Times scalar scalar

definition times_entries :: "scalar option \<Rightarrow> scalar option \<Rightarrow> scalar option" where
  "times_entries x y =
     (case x of
        None \<Rightarrow> None
      | Some u \<Rightarrow> (case y of None \<Rightarrow> None | Some v \<Rightarrow> Some (Times u v)))"

definition in_range :: "nat list \<Rightarrow> nat list \<Rightarrow> bool" where
  "in_range dims idx = list_all2 (\<lambda>i d. i < d) idx dims"

definition operand_index :: "nat list \<Rightarrow> nat list \<Rightarrow> nat list" where
  "operand_index dims idx =
     map2 (\<lambda>d i. if d = 1 then 0 else i) dims (drop (length idx - length dims) idx)"

fun ravel :: "nat list \<Rightarrow> nat list \<Rightarrow> nat" where
  "ravel (d # dims) (i # idx) = i * prod_list dims + ravel dims idx"
| "ravel dims idx = 0"

fun unravel :: "nat list \<Rightarrow> nat \<Rightarrow> nat list" where
  "unravel [] k = []"
| "unravel (d # dims) k = k div prod_list dims # unravel dims (k mod prod_list dims)"

fun entry :: "expr \<Rightarrow> nat list \<Rightarrow> nat list \<Rightarrow> scalar option" where
  "entry (Input k) dims idx = Some (Entry k idx)"
| "entry Eye dims idx = Some (Number (if idx ! 0 = idx ! 1 then 1 else 0))"
| "entry Ones dims idx = Some (Number 1)"
| "entry Zeros dims idx = Some (Number 0)"
| "entry (Multiply a dims_a b dims_b) dims idx =
     times_entries (entry a dims_a (operand_index dims_a idx))
       (entry b dims_b (operand_index dims_b idx))"
| "entry (Reshape a dims_a) dims idx = entry a dims_a (unravel dims_a (ravel dims idx))"
| "entry e dims idx = None"

definition entry_of :: "sym_tensor \<Rightarrow> nat list \<Rightarrow> scalar option" where
  "entry_of t idx =
     (if in_range (st_shape t) idx then entry (st_node t) (st_shape t) idx else None)"

section \<open>Vocabulary of the specification\<close>

text \<open>
  The generator state after \<^verbatim>\<open>if seed: self.tf.random.set_seed(seed)\<close>, and the dtype
  after \<^verbatim>\<open>dtype if dtype is not None else self.tf.float64\<close>.
\<close>

definition seeded :: "('t, 'g) tensorflow \<Rightarrow> int option \<Rightarrow> 'g \<Rightarrow> 'g" where
  "seeded lib seed g =
     (case seed of None \<Rightarrow> g | Some s \<Rightarrow> if s = 0 then g else tf_random_set_seed lib s g)"

definition or_float64 :: "dtype option \<Rightarrow> dtype" where
  "or_float64 dtype = (case dtype of None \<Rightarrow> Float64 | Some d \<Rightarrow> d)"

text \<open>
  What the specification says of a complex random tensor: the real part is drawn,
  then the imaginary part by a second draw of the same kind, from the state the first
  draw left, and the two are combined.
\<close>

definition two_draws ::
  "('g \<Rightarrow> (error + 't) \<times> 'g) \<Rightarrow> ('t \<Rightarrow> 't \<Rightarrow> error + 't) \<Rightarrow> 'g \<Rightarrow> (error + 't) \<times> 'g" where
  "two_draws draw combine g =
     (case draw g of
        (Inl e, g1) \<Rightarrow> (Inl e, g1)
      | (Inr re, g1) \<Rightarrow>
          (case draw g1 of
             (Inl e, g2) \<Rightarrow> (Inl e, g2)
           | (Inr im, g2) \<Rightarrow> (combine re im, g2)))"

text \<open>A message names something when it contains its name (Python's \<^verbatim>\<open>in\<close>).\<close>

fun starts_with :: "string \<Rightarrow> string \<Rightarrow> bool" where
  "starts_with s [] = True"
| "starts_with [] (p # ps) = False"
| "starts_with (c # cs) (p # ps) = (c = p \<and> starts_with cs ps)"

fun contains :: "string \<Rightarrow> string \<Rightarrow> bool" where
  "contains [] p = (p = [])"
| "contains (c # cs) p = (starts_with (c # cs) p \<or> contains cs p)"

section \<open>Facts about the library of symbolic tensors\<close>

lemmas sym_tf_simps =
  sym_backend_def sym_tf_def input_def fresh_def sym_shape_def int_vector_def sym_concat_def
  sym_reshape_def sym_slice_def slice_ok_def sym_eye_def sym_fill_def broadcast_shape_def
  sym_multiply_def sym_complex_def is_square_def sym_matrix_op_def sym_expm_def
  sym_set_seed_def
  sym_draw_def is_floating_def is_complex_def

lemma sym_eye_dtype: "\<forall>n m d t. tf_eye sym_tf n m d = Inr t \<longrightarrow> tensor_dtype sym_tf t = d"
  by (auto simp: sym_tf_def sym_eye_def Let_def split: if_splits)

lemma sym_ones_dtype: "\<forall>dims d t. tf_ones sym_tf dims d = Inr t \<longrightarrow> tensor_dtype sym_tf t = d"
  by (auto simp: sym_tf_def sym_fill_def split: if_splits)

lemma sym_zeros_dtype: "\<forall>dims d t. tf_zeros sym_tf dims d = Inr t \<longrightarrow> tensor_dtype sym_tf t = d"
  by (auto simp: sym_tf_def sym_fill_def split: if_splits)

lemma sym_eye_default_columns: "\<forall>n d. tf_eye sym_tf n None d = tf_eye sym_tf n (Some n) d"
  by (simp add: sym_tf_def sym_eye_def)

lemma sym_eye_shape:
  "\<forall>n m d t. tf_eye sym_tf n (Some m) d = Inr t \<longrightarrow> tensor_shape sym_tf t = [nat n, nat m]"
  by (auto simp: sym_tf_def sym_eye_def Let_def split: if_splits)

lemma sym_eye_succeeds: "\<forall>n m d. 0 < n \<and> 0 < m \<longrightarrow> (\<exists>t. tf_eye sym_tf n (Some m) d = Inr t)"
  by (simp add: sym_tf_def sym_eye_def)

subsection \<open>Broadcasting a vector\<close>

lemma broadcast_rev_Nil: "broadcast_rev xs [] = Some xs"
  by (cases xs) simp_all

lemma broadcast_rev_ones:
  "broadcast_rev (xs @ [n]) (replicate (length xs) (Suc 0) @ [n]) = Some (xs @ [n])"
  by (induction xs) auto

lemma broadcast_shape_column:
  "broadcast_shape (n # rest) (n # replicate (length rest) (Suc 0)) = Some (n # rest)"
  using broadcast_rev_ones [of "rev rest" n]
  by (simp add: broadcast_shape_def flip: replicate_append_same)

lemma broadcast_shape_row: "broadcast_shape (pre @ [n]) [n] = Some (pre @ [n])"
  by (simp add: broadcast_shape_def broadcast_rev_Nil)

lemma prod_list_ones: "prod_list (replicate k (Suc 0)) = Suc 0"
  by (induction k) auto

lemma nonneg_ones: "list_all (\<lambda>d. (0::int) \<le> d) (replicate k 1)"
  by (induction k) auto

lemma ravel_zeros: "ravel dims (replicate k 0) = 0"
proof (induction dims arbitrary: k)
  case Nil
  then show ?case by simp
next
  case (Cons d dims)
  then show ?case by (cases k) simp_all
qed

lemma in_range_length: "in_range dims idx \<Longrightarrow> length idx = length dims"
  by (simp add: in_range_def list_all2_lengthD)

lemma operand_index_same:
  assumes "in_range dims idx"
  shows "operand_index dims idx = idx"
proof -
  have "map2 (\<lambda>d i. if d = 1 then 0 else i) dims idx = idx"
    using assms unfolding in_range_def
    by (induction idx dims rule: list_all2_induct) auto
  then show ?thesis
    using in_range_length [OF assms] by (simp add: operand_index_def)
qed

lemma operand_index_ones:
  "length idx = k \<Longrightarrow>
   map2 (\<lambda>d i. if d = 1 then 0 else i) (replicate k (1::nat)) idx = replicate k (0::nat)"
  by (induction idx arbitrary: k) auto

lemma operand_index_column:
  assumes "i < n" and "length idx = k"
  shows "operand_index (n # replicate k (Suc 0)) (i # idx) = i # replicate k 0"
  using assms operand_index_ones [of idx k] by (auto simp: operand_index_def)

lemma operand_index_row:
  assumes "k < n"
  shows "operand_index [n] (idx @ [k]) = [k]"
  using assms by (auto simp: operand_index_def)

text \<open>
  What the two multiplications return on the symbolic library, for a vector of the
  length of the first axis and of the last axis.
\<close>

lemma left_result:
  assumes "st_shape t1 = [n]" and "st_shape t2 = n # rest" and "st_dtype t1 = st_dtype t2"
  shows "broadcast_left_multiplication sym_backend t1 t2 =
    Inr \<lparr>st_node = Multiply (st_node t2) (n # rest) (Reshape (st_node t1) [n])
            (n # replicate (length rest) 1),
         st_shape = n # rest, st_dtype = st_dtype t2\<rparr>"
proof -
  let ?column = "int_vector (int n # replicate (length rest) 1)"
  have concat: "sym_concat [Tensor (sym_shape t1), PyList (replicate (length rest) 1)] (- 1) =
      Inr ?column"
    using assms(1) by (simp add: sym_concat_def sym_shape_def int_vector_def)
  have reshape: "sym_reshape t1 ?column =
      Inr \<lparr>st_node = Reshape (st_node t1) [n], st_shape = n # replicate (length rest) 1,
           st_dtype = st_dtype t1\<rparr>"
    using assms(1) by (simp add: sym_reshape_def int_vector_def nonneg_ones prod_list_ones)
  show ?thesis
    using assms
    by (simp add: broadcast_left_multiplication_def shape_concat_def shape_tensor_def
        reshape_def sym_backend_def sym_tf_def concat reshape sym_multiply_def
        broadcast_shape_column)
qed

lemma right_result:
  assumes "st_shape t1 = pre @ [n]" and "st_shape t2 = [n]" and "st_dtype t1 = st_dtype t2"
  shows "broadcast_right_multiplication sym_backend t1 t2 =
    Inr \<lparr>st_node = Multiply (st_node t1) (pre @ [n]) (st_node t2) [n],
         st_shape = pre @ [n], st_dtype = st_dtype t1\<rparr>"
  using assms
  by (simp add: broadcast_right_multiplication_def sym_backend_def sym_tf_def
      sym_multiply_def broadcast_shape_row)

lemma left_entries:
  assumes "st_shape t1 = [n]" and "st_shape t2 = n # rest" and "st_dtype t1 = st_dtype t2"
    and "i < n" and "in_range rest idx"
  shows "\<exists>r. broadcast_left_multiplication sym_backend t1 t2 = Inr r \<and> st_shape r = n # rest \<and>
    entry_of r (i # idx) = times_entries (entry_of t2 (i # idx)) (entry_of t1 [i])"
proof -
  have "in_range (n # rest) (i # idx)" and "in_range [n] [i]"
    using assms(4,5) by (simp_all add: in_range_def)
  then show ?thesis
    using assms in_range_length [OF assms(5)]
    by (simp add: left_result entry_of_def operand_index_same operand_index_column ravel_zeros
        prod_list_ones)
qed

lemma right_entries:
  assumes "st_shape t1 = pre @ [n]" and "st_shape t2 = [n]" and "st_dtype t1 = st_dtype t2"
    and "in_range pre idx" and "k < n"
  shows "\<exists>r. broadcast_right_multiplication sym_backend t1 t2 = Inr r \<and> st_shape r = pre @ [n] \<and>
    entry_of r (idx @ [k]) = times_entries (entry_of t1 (idx @ [k])) (entry_of t2 [k])"
proof -
  have "in_range (pre @ [n]) (idx @ [k])" and "in_range [n] [k]"
    using assms(4,5) by (simp_all add: in_range_def list_all2_appendI)
  then show ?thesis
    using assms
    by (simp add: right_result entry_of_def operand_index_same operand_index_row)
qed

section \<open>Properties\<close>

subsection \<open>Argument checks\<close>

text \<open>
  Claim C4. Whenever \<open>start_indices\<close> and \<open>slice_sizes\<close> have different lengths,
  \<open>slice\<close> fails with a \<open>ValueError\<close>; whenever they have the same length the check
  passes and the call is forwarded: the outcome is the one of the library's
  \<^verbatim>\<open>tf.slice\<close> on the same three arguments.
\<close>

theorem slice_length_check:
  "(length start_indices \<noteq> length slice_sizes \<longrightarrow>
      is_ValueError (slice self tensor start_indices slice_sizes)) \<and>
   (length start_indices = length slice_sizes \<longrightarrow>
      slice self tensor start_indices slice_sizes =
        tf_slice (tf self) tensor start_indices slice_sizes)"
  by (simp add: slice_def)

text \<open>
  On a 2 by 3 tensor: one size for two start indices is refused, two sizes reach the
  library, which cuts out a 1 by 2 block.
\<close>

theorem slice_length_check_witness:
  "is_ValueError (slice sym_backend (input 0 [2, 3] Float64) [0, 0] [1]) \<and>
   slice sym_backend (input 0 [2, 3] Float64) [0, 1] [1, 2] =
     Inr \<lparr>st_node = Slice (Input 0) [0, 1], st_shape = [1, 2], st_dtype = Float64\<rparr>"
  using slice_length_check [of "[0, 0]" "[1]" sym_backend "input 0 [2, 3] Float64"]
    slice_length_check [of "[0, 1]" "[1, 2]" sym_backend "input 0 [2, 3] Float64"]
  by (simp add: sym_tf_simps)

text \<open>
  Claim C1, as the code has it. \<open>inv\<close> fails with a \<open>ValueError\<close> on every tensor of
  rank greater than 2. On a tensor of rank 2, square or not, it makes no check of its
  own: the outcome is the one of the library's \<^verbatim>\<open>tf.linalg.inv\<close>, so a matrix that is
  not square is refused only by the library, with the library's exception.
\<close>

theorem inv_rank_check:
  "(2 < length (tensor_shape (tf self) matrix) \<longrightarrow> is_ValueError (inv_tensor self matrix)) \<and>
   (length (tensor_shape (tf self) matrix) = 2 \<longrightarrow>
      inv_tensor self matrix = tf_linalg_inv (tf self) matrix)"
  by (simp add: inv_tensor_def)

theorem inv_rank_check_witness:
  "is_ValueError (inv_tensor sym_backend (input 0 [2, 3, 3] Float64)) \<and>
   inv_tensor sym_backend (input 0 [3, 3] Float64) =
     Inr \<lparr>st_node = MatrixInverse (Input 0), st_shape = [3, 3], st_dtype = Float64\<rparr>"
  using inv_rank_check [of sym_backend "input 0 [2, 3, 3] Float64"]
    inv_rank_check [of sym_backend "input 0 [3, 3] Float64"]
  by (simp add: sym_tf_simps)

text \<open>
  Claim C1 as it is written asks for a \<open>ValueError\<close> on every matrix that is not
  square. A 2 by 3 matrix passes the rank check of \<open>inv\<close> and goes to the library; what
  comes back is the library's \<open>InvalidArgumentError\<close>, not a \<open>ValueError\<close>.
\<close>

theorem inv_nonsquare_counterexample:
  "tensor_shape (tf sym_backend) (input 0 [2, 3] Float64) = [2, 3] \<and>
   inv_tensor sym_backend (input 0 [2, 3] Float64) =
     Inl (InvalidArgumentError ''Input matrix must be square.'') \<and>
   \<not> is_ValueError (inv_tensor sym_backend (input 0 [2, 3] Float64))"
  by (simp add: inv_tensor_def sym_tf_simps)

text \<open>
  Claim C5, as the code has it. \<open>expm\<close> fails with a \<open>ValueError\<close> on every tensor
  whose rank is not 2 or whose two dimensions differ. On every square tensor of rank 2
  both checks pass and the call is delegated to the library's \<^verbatim>\<open>tf.linalg.expm\<close>: the
  outcome is the library's, so \<open>expm\<close> returns a tensor exactly when the library
  returns it, and ends with the library's exception when the library raises one.
\<close>

theorem expm_checks:
  "(length (tensor_shape (tf self) matrix) \<noteq> 2 \<or>
    tensor_shape (tf self) matrix ! 0 \<noteq> tensor_shape (tf self) matrix ! 1 \<longrightarrow>
      is_ValueError (expm self matrix)) \<and>
   (length (tensor_shape (tf self) matrix) = 2 \<and>
    tensor_shape (tf self) matrix ! 0 = tensor_shape (tf self) matrix ! 1 \<longrightarrow>
      expm self matrix = tf_linalg_expm (tf self) matrix \<and>
      (expm self matrix = Inr result) = (tf_linalg_expm (tf self) matrix = Inr result) \<and>
      (expm self matrix = Inl exception) = (tf_linalg_expm (tf self) matrix = Inl exception))"
  by (simp add: expm_def)

text \<open>
  A vector and a 3 by 12 matrix are refused by \<open>expm\<close> itself; a 3 by 3 matrix of
  dtype \<open>Float64\<close> reaches the library, which returns its exponential.
\<close>

theorem expm_checks_witness:
  "is_ValueError (expm sym_backend (input 0 [3] Float64)) \<and>
   is_ValueError (expm sym_backend (input 0 [3, 12] Float64)) \<and>
   expm sym_backend (input 0 [3, 3] Float64) =
     Inr \<lparr>st_node = MatrixExponential (Input 0), st_shape = [3, 3], st_dtype = Float64\<rparr> \<and>
   tf_linalg_expm sym_tf (input 0 [3, 3] Float64) =
     Inr \<lparr>st_node = MatrixExponential (Input 0), st_shape = [3, 3], st_dtype = Float64\<rparr>"
proof -
  note fact = expm_checks [where self = sym_backend
      and result = "\<lparr>st_node = MatrixExponential (Input 0), st_shape = [3, 3],
        st_dtype = Float64\<rparr>"
      and exception = "ValueError []"]
  show ?thesis
    using fact [where matrix = "input 0 [3] Float64"]
      fact [where matrix = "input 0 [3, 12] Float64"]
      fact [where matrix = "input 0 [3, 3] Float64"]
    by (simp add: sym_tf_simps)
qed

text \<open>
  Claim C5 as it is written has the call succeed on every square matrix of rank 2. A
  3 by 3 matrix of dtype \<open>Int32\<close> passes both checks of \<open>expm\<close> and goes to the
  library, which supports floating point and complex matrices only: the call ends
  with the exception of the library and returns no tensor.
\<close>

theorem expm_square_counterexample:
  "tensor_shape (tf sym_backend) (input 0 [3, 3] Int32) = [3, 3] \<and>
   expm sym_backend (input 0 [3, 3] Int32) = tf_linalg_expm sym_tf (input 0 [3, 3] Int32) \<and>
   expm sym_backend (input 0 [3, 3] Int32) =
     Inl (ValueError ''tf.linalg.expm does not support matrices of type <dtype: 'int32'>'') \<and>
   isl (expm sym_backend (input 0 [3, 3] Int32))"
  by (simp add: expm_def sym_tf_simps format_def)

text \<open>
  Claim C6. \<open>broadcast_left_multiplication\<close> fails with a \<open>ValueError\<close> unless
  \<open>tensor1\<close> has rank 1, and \<open>broadcast_right_multiplication\<close> fails with a
  \<open>ValueError\<close> unless \<open>tensor2\<close> has rank 1. With a vector \<open>tensor2\<close> the right
  multiplication is the library's element-wise product of \<open>tensor1\<close> and \<open>tensor2\<close>.
  With a vector \<open>tensor1\<close> the left multiplication reshapes the vector to its own shape
  followed by one dimension 1 for every further axis of \<open>tensor2\<close>, and returns the
  library's element-wise product of \<open>tensor2\<close> and the reshaped vector. Under the
  broadcasting rule this pairs the vector with the first axis on the left and with the
  last axis on the right: on the symbolic library, with a vector as long as that axis,
  the product has the shape of the other tensor, and its entry at an index is the entry
  of the other tensor there times the entry of the vector at the position along the
  first axis, on the right along the last axis.
\<close>

theorem broadcast_multiplication:
  "(length (tensor_shape (tf self) tensor1) \<noteq> 1 \<longrightarrow>
      is_ValueError (broadcast_left_multiplication self tensor1 tensor2)) \<and>
   (length (tensor_shape (tf self) tensor2) \<noteq> 1 \<longrightarrow>
      is_ValueError (broadcast_right_multiplication self tensor1 tensor2)) \<and>
   (length (tensor_shape (tf self) tensor2) = 1 \<longrightarrow>
      broadcast_right_multiplication self tensor1 tensor2 =
        tf_multiply (tf self) tensor1 tensor2) \<and>
   (length (tensor_shape (tf self) tensor1) = 1 \<longrightarrow>
      broadcast_left_multiplication self tensor1 tensor2 =
        (case tf_concat (tf self)
                [Tensor (tf_shape (tf self) tensor1),
                 PyList (replicate (length (tensor_shape (tf self) tensor2) - 1) 1)] (- 1) of
           Inl e \<Rightarrow> Inl e
         | Inr singletons_appended \<Rightarrow>
             (case tf_reshape (tf self) tensor1 singletons_appended of
                Inl e \<Rightarrow> Inl e
              | Inr column \<Rightarrow> tf_multiply (tf self) tensor2 column))) \<and>
   (st_shape vector = [n] \<and> st_shape tensor = n # rest \<and> st_dtype vector = st_dtype tensor \<and>
    i < n \<and> in_range rest idx \<longrightarrow>
      (\<exists>product. broadcast_left_multiplication sym_backend vector tensor = Inr product \<and>
         st_shape product = n # rest \<and>
         entry_of product (i # idx) =
           times_entries (entry_of tensor (i # idx)) (entry_of vector [i]))) \<and>
   (st_shape tensor' = pre @ [n'] \<and> st_shape vector' = [n'] \<and>
    st_dtype tensor' = st_dtype vector' \<and> in_range pre idx' \<and> k < n' \<longrightarrow>
      (\<exists>product. broadcast_right_multiplication sym_backend tensor' vector' = Inr product \<and>
         st_shape product = pre @ [n'] \<and>
         entry_of product (idx' @ [k]) =
           times_entries (entry_of tensor' (idx' @ [k])) (entry_of vector' [k])))"
proof -
  have ones: "nat (int (length (tensor_shape (tf self) tensor2)) - 1) =
      length (tensor_shape (tf self) tensor2) - 1"
    by arith
  have calls:
    "length (tensor_shape (tf self) tensor1) \<noteq> 1 \<longrightarrow>
       is_ValueError (broadcast_left_multiplication self tensor1 tensor2)"
    "length (tensor_shape (tf self) tensor2) \<noteq> 1 \<longrightarrow>
       is_ValueError (broadcast_right_multiplication self tensor1 tensor2)"
    "length (tensor_shape (tf self) tensor2) = 1 \<longrightarrow>
       broadcast_right_multiplication self tensor1 tensor2 =
         tf_multiply (tf self) tensor1 tensor2"
    "length (tensor_shape (tf self) tensor1) = 1 \<longrightarrow>
       broadcast_left_multiplication self tensor1 tensor2 =
         (case tf_concat (tf self)
                 [Tensor (tf_shape (tf self) tensor1),
                  PyList (replicate (length (tensor_shape (tf self) tensor2) - 1) 1)] (- 1) of
            Inl e \<Rightarrow> Inl e
          | Inr singletons_appended \<Rightarrow>
              (case tf_reshape (tf self) tensor1 singletons_appended of
                 Inl e \<Rightarrow> Inl e
               | Inr column \<Rightarrow> tf_multiply (tf self) tensor2 column))"
    unfolding broadcast_left_multiplication_def broadcast_right_multiplication_def
      shape_concat_def shape_tensor_def reshape_def ones
    by simp_all
  from calls left_entries [of vector n tensor rest i idx]
    right_entries [of tensor' pre n' vector' idx' k]
  show ?thesis
    by blast
qed

text \<open>
  A vector of length 3 against a 3 by 4 by 5 tensor: on the left it is reshaped to
  3 by 1 by 1, the product has the shape of the tensor, and the entry at (2, 1, 4) is
  the entry of the tensor there times the entry 2 of the vector; on the right, where
  the last axis has length 5, the library refuses the product. A vector of length 5
  fits on the right, where the entry 4 of the vector is taken, and a 3 by 1 tensor is
  no vector.
\<close>

theorem broadcast_multiplication_witness:
  "broadcast_left_multiplication sym_backend (input 0 [3] Float64) (input 1 [3, 4, 5] Float64) =
     Inr \<lparr>st_node = Multiply (Input 1) [3, 4, 5] (Reshape (Input 0) [3]) [3, 1, 1],
          st_shape = [3, 4, 5], st_dtype = Float64\<rparr> \<and>
   entry_of
     \<lparr>st_node = Multiply (Input 1) [3, 4, 5] (Reshape (Input 0) [3]) [3, 1, 1],
      st_shape = [3, 4, 5], st_dtype = Float64\<rparr> [2, 1, 4] =
     Some (Times (Entry 1 [2, 1, 4]) (Entry 0 [2])) \<and>
   broadcast_right_multiplication sym_backend (input 1 [3, 4, 5] Float64) (input 0 [3] Float64) =
     Inl (InvalidArgumentError ''Incompatible shapes'') \<and>
   broadcast_right_multiplication sym_backend (input 1 [3, 4, 5] Float64) (input 2 [5] Float64) =
     Inr \<lparr>st_node = Multiply (Input 1) [3, 4, 5] (Input 2) [5], st_shape = [3, 4, 5],
          st_dtype = Float64\<rparr> \<and>
   entry_of
     \<lparr>st_node = Multiply (Input 1) [3, 4, 5] (Input 2) [5], st_shape = [3, 4, 5],
      st_dtype = Float64\<rparr> [2, 1, 4] =
     Some (Times (Entry 1 [2, 1, 4]) (Entry 2 [4])) \<and>
   is_ValueError
     (broadcast_left_multiplication sym_backend (input 3 [3, 1] Float64)
        (input 1 [3, 4, 5] Float64)) \<and>
   is_ValueError
     (broadcast_right_multiplication sym_backend (input 1 [3, 4, 5] Float64)
        (input 3 [3, 1] Float64))"
proof -
  note fact = broadcast_multiplication [where self = sym_backend
      and vector = "input 0 [3] Float64" and tensor = "input 1 [3, 4, 5] Float64"
      and n = 3 and rest = "[4, 5]" and i = 2 and idx = "[1, 4]"
      and tensor' = "input 1 [3, 4, 5] Float64" and vector' = "input 2 [5] Float64"
      and pre = "[3, 4]" and n' = 5 and idx' = "[2, 1]" and k = 4]
  show ?thesis
    using fact [where ?tensor1.0 = "input 0 [3] Float64"
        and ?tensor2.0 = "input 1 [3, 4, 5] Float64"]
      fact [where ?tensor1.0 = "input 1 [3, 4, 5] Float64"
        and ?tensor2.0 = "input 0 [3] Float64"]
      fact [where ?tensor1.0 = "input 1 [3, 4, 5] Float64"
        and ?tensor2.0 = "input 2 [5] Float64"]
      fact [where ?tensor1.0 = "input 3 [3, 1] Float64"
        and ?tensor2.0 = "input 1 [3, 4, 5] Float64"]
      fact [where ?tensor1.0 = "input 1 [3, 4, 5] Float64"
        and ?tensor2.0 = "input 3 [3, 1] Float64"]
    by (simp add: sym_tf_simps entry_of_def in_range_def operand_index_def times_entries_def)
qed

subsection \<open>Constructors\<close>

text \<open>
  Claim C8. \<open>eye\<close>, \<open>ones\<close> and \<open>zeros\<close> ask the library for dtype \<open>Float64\<close> when
  the dtype argument is \<open>None\<close> and for the given dtype otherwise; so, for a library
  whose constructors build a tensor of the dtype they are asked for, the tensor
  constructed has dtype \<open>Float64\<close> when the argument is \<open>None\<close> and the given dtype
  otherwise.
\<close>

theorem constructor_dtype:
  assumes "\<forall>n m d t. tf_eye (tf self) n m d = Inr t \<longrightarrow> tensor_dtype (tf self) t = d"
    and "\<forall>dims d t. tf_ones (tf self) dims d = Inr t \<longrightarrow> tensor_dtype (tf self) t = d"
    and "\<forall>dims d t. tf_zeros (tf self) dims d = Inr t \<longrightarrow> tensor_dtype (tf self) t = d"
  shows "eye self N None M = tf_eye (tf self) N M Float64 \<and>
    ones self shape None = tf_ones (tf self) shape Float64 \<and>
    zeros self shape None = tf_zeros (tf self) shape Float64 \<and>
    eye self N (Some d) M = tf_eye (tf self) N M d \<and>
    ones self shape (Some d) = tf_ones (tf self) shape d \<and>
    zeros self shape (Some d) = tf_zeros (tf self) shape d \<and>
    (\<forall>t. eye self N dtype M = Inr t \<or> ones self shape dtype = Inr t \<or>
          zeros self shape dtype = Inr t \<longrightarrow>
       tensor_dtype (tf self) t = (case dtype of None \<Rightarrow> Float64 | Some given \<Rightarrow> given))"
proof -
  have forwarded:
    "eye self N dtype M = tf_eye (tf self) N M (or_float64 dtype)"
    "ones self shape dtype = tf_ones (tf self) shape (or_float64 dtype)"
    "zeros self shape dtype = tf_zeros (tf self) shape (or_float64 dtype)" for dtype
    by (simp_all add: eye_def ones_def zeros_def or_float64_def)
  have "tensor_dtype (tf self) t = or_float64 dtype"
    if "eye self N dtype M = Inr t \<or> ones self shape dtype = Inr t \<or>
        zeros self shape dtype = Inr t" for t
    using that assms unfolding forwarded by blast
  then show ?thesis
    by (simp add: forwarded or_float64_def)
qed

theorem constructor_dtype_witness:
  "eye sym_backend 3 None None =
     Inr \<lparr>st_node = Eye, st_shape = [3, 3], st_dtype = Float64\<rparr> \<and>
   ones sym_backend [3, 2] None =
     Inr \<lparr>st_node = Ones, st_shape = [3, 2], st_dtype = Float64\<rparr> \<and>
   zeros sym_backend [3, 2] None =
     Inr \<lparr>st_node = Zeros, st_shape = [3, 2], st_dtype = Float64\<rparr> \<and>
   eye sym_backend 3 (Some Int32) None =
     Inr \<lparr>st_node = Eye, st_shape = [3, 3], st_dtype = Int32\<rparr> \<and>
   ones sym_backend [3, 2] (Some Complex64) =
     Inr \<lparr>st_node = Ones, st_shape = [3, 2], st_dtype = Complex64\<rparr> \<and>
   zeros sym_backend [3, 2] (Some Float32) =
     Inr \<lparr>st_node = Zeros, st_shape = [3, 2], st_dtype = Float32\<rparr> \<and>
   tensor_dtype sym_tf \<lparr>st_node = Eye, st_shape = [3, 3], st_dtype = Float64\<rparr> = Float64"
proof -
  have lib: "tf sym_backend = sym_tf"
    by (simp add: sym_backend_def)
  note fact = constructor_dtype [of sym_backend, unfolded lib,
      OF sym_eye_dtype sym_ones_dtype sym_zeros_dtype]
  show ?thesis
    using fact [of 3 None "[3, 2]" Int32 None] fact [of 3 None "[3, 2]" Complex64 None]
      fact [of 3 None "[3, 2]" Float32 None]
    by (simp add: sym_tf_simps)
qed

text \<open>
  Claim C10. With the argument \<open>M\<close> omitted, \<open>eye\<close> hands \<^verbatim>\<open>num_columns=None\<close> to the
  library. For a library whose \<^verbatim>\<open>tf.eye\<close> takes the number of rows for a missing
  number of columns, builds a tensor of the shape asked for and succeeds on positive
  dimensions, \<open>eye\<close> for every positive \<open>N\<close> yields the square identity, the same
  tensor as for \<open>M = N\<close>, of shape \<open>N\<close> by \<open>N\<close>; with \<open>M\<close> supplied and positive it
  yields a tensor of \<open>N\<close> rows and \<open>M\<close> columns.
\<close>

theorem eye_columns:
  assumes "\<forall>n d. tf_eye (tf self) n None d = tf_eye (tf self) n (Some n) d"
    and "\<forall>n m d t. tf_eye (tf self) n (Some m) d = Inr t \<longrightarrow>
           tensor_shape (tf self) t = [nat n, nat m]"
    and "\<forall>n m d. 0 < n \<and> 0 < m \<longrightarrow> (\<exists>t. tf_eye (tf self) n (Some m) d = Inr t)"
    and "0 < N"
  shows "eye self N dtype None = tf_eye (tf self) N None (or_float64 dtype) \<and>
    eye self N dtype None = eye self N dtype (Some N) \<and>
    (\<exists>t. eye self N dtype None = Inr t \<and> tensor_shape (tf self) t = [nat N, nat N]) \<and>
    (0 < M \<longrightarrow>
       (\<exists>t. eye self N dtype (Some M) = Inr t \<and> tensor_shape (tf self) t = [nat N, nat M]))"
proof -
  have forwarded: "eye self N dtype m = tf_eye (tf self) N m (or_float64 dtype)" for m
    by (simp add: eye_def or_float64_def)
  have built: "\<exists>t. eye self N dtype (Some m) = Inr t \<and> tensor_shape (tf self) t = [nat N, nat m]"
    if "0 < m" for m
  proof -
    from assms(3) assms(4) that obtain t where t: "tf_eye (tf self) N (Some m) (or_float64 dtype) = Inr t"
      by blast
    with assms(2) have "tensor_shape (tf self) t = [nat N, nat m]"
      by blast
    with t show ?thesis
      by (simp add: forwarded)
  qed
  have square: "eye self N dtype None = eye self N dtype (Some N)"
    using assms(1) by (simp add: forwarded)
  show ?thesis
    using built [of N] built [of M] assms(4) square forwarded [of None] by simp
qed

theorem eye_columns_witness:
  "eye sym_backend 3 None None =
     Inr \<lparr>st_node = Eye, st_shape = [3, 3], st_dtype = Float64\<rparr> \<and>
   eye sym_backend 3 None (Some 3) = eye sym_backend 3 None None \<and>
   eye sym_backend 3 None (Some 4) =
     Inr \<lparr>st_node = Eye, st_shape = [3, 4], st_dtype = Float64\<rparr> \<and>
   (\<exists>t. eye sym_backend 3 None (Some 4) = Inr t \<and> tensor_shape sym_tf t = [3, 4]) \<and>
   entry_of \<lparr>st_node = Eye, st_shape = [3, 3], st_dtype = Float64\<rparr> [2, 2] = Some (Number 1) \<and>
   entry_of \<lparr>st_node = Eye, st_shape = [3, 3], st_dtype = Float64\<rparr> [2, 1] = Some (Number 0)"
proof -
  have lib: "tf sym_backend = sym_tf"
    by (simp add: sym_backend_def)
  have positive: "(0::int) < 3"
    by simp
  note fact = eye_columns [of sym_backend, unfolded lib,
      OF sym_eye_default_columns sym_eye_shape sym_eye_succeeds positive]
  show ?thesis
    using fact [of None 4]
    by (simp add: sym_tf_simps eye_def entry_of_def in_range_def)
qed

subsection \<open>Random tensors\<close>

text \<open>
  Claim C7. For every shape, \<open>randn\<close> and \<open>random_uniform\<close> with dtype \<open>Complex64\<close>
  or \<open>Complex128\<close> build their result from two draws of the requested shape, the real
  part first and the imaginary part second, each in the real dtype of the complex one
  (\<open>Float32\<close> for \<open>Complex64\<close>, \<open>Float64\<close> for \<open>Complex128\<close>), combined by the
  library's \<^verbatim>\<open>tf.complex\<close>. The two draws are separate calls of the generator, the
  second from the state the first one left. With any other dtype, \<open>Float64\<close> when
  none is given, the result is a single draw of the requested shape and dtype.
\<close>

theorem complex_two_draws:
  "(or_float64 dtype = Complex64 \<or> or_float64 dtype = Complex128 \<longrightarrow>
      real_dtype (or_float64 dtype) = (if dtype = Some Complex64 then Float32 else Float64) \<and>
      randn self shape dtype seed g =
        two_draws (tf_random_normal (tf self) shape (real_dtype (or_float64 dtype)))
          (tf_complex (tf self)) (seeded (tf self) seed g) \<and>
      random_uniform self shape (lo, hi) dtype seed g =
        two_draws (tf_random_uniform (tf self) shape lo hi (real_dtype (or_float64 dtype)))
          (tf_complex (tf self)) (seeded (tf self) seed g)) \<and>
   (or_float64 dtype \<noteq> Complex64 \<and> or_float64 dtype \<noteq> Complex128 \<longrightarrow>
      randn self shape dtype seed g =
        tf_random_normal (tf self) shape (or_float64 dtype) (seeded (tf self) seed g) \<and>
      random_uniform self shape (lo, hi) dtype seed g =
        tf_random_uniform (tf self) shape lo hi (or_float64 dtype)
          (tf_random_set_seed (tf self) 10 (seeded (tf self) seed g)))"
proof -
  have state: "(if truthy seed then tf_random_set_seed (tf self) (the seed) g else g) =
      seeded (tf self) seed g"
    by (cases seed) (simp_all add: seeded_def)
  have type: "(case dtype of Some d \<Rightarrow> d | None \<Rightarrow> Float64) = or_float64 dtype"
    by (simp add: or_float64_def split: option.splits)
  have real: "real_dtype (or_float64 dtype) = (if dtype = Some Complex64 then Float32 else Float64)"
    if "or_float64 dtype = Complex64 \<or> or_float64 dtype = Complex128"
    using that by (cases dtype) (auto simp: or_float64_def)
  have complex:
    "randn self shape dtype seed g =
       two_draws (tf_random_normal (tf self) shape (real_dtype (or_float64 dtype)))
         (tf_complex (tf self)) (seeded (tf self) seed g)"
    "random_uniform self shape (lo, hi) dtype seed g =
       two_draws (tf_random_uniform (tf self) shape lo hi (real_dtype (or_float64 dtype)))
         (tf_complex (tf self)) (seeded (tf self) seed g)"
    if "or_float64 dtype = Complex64 \<or> or_float64 dtype = Complex128"
    using that unfolding randn_def random_uniform_def state type two_draws_def Let_def
    by (auto split: prod.splits sum.splits)
  have single:
    "randn self shape dtype seed g =
       tf_random_normal (tf self) shape (or_float64 dtype) (seeded (tf self) seed g)"
    "random_uniform self shape (lo, hi) dtype seed g =
       tf_random_uniform (tf self) shape lo hi (or_float64 dtype)
         (tf_random_set_seed (tf self) 10 (seeded (tf self) seed g))"
    if "or_float64 dtype \<noteq> Complex64" and "or_float64 dtype \<noteq> Complex128"
    using that unfolding randn_def random_uniform_def state type Let_def
    by simp_all
  from real complex single show ?thesis
    by blast
qed

text \<open>
  A 2 by 3 tensor of dtype \<open>Complex64\<close> under seed 5 is made of the first and the
  second \<open>Float32\<close> draw after seeding; without a dtype one \<open>Float64\<close> draw is made.
\<close>

theorem complex_two_draws_witness:
  "randn sym_backend [2, 3] (Some Complex64) (Some 5) fresh =
     (Inr \<lparr>st_node = ComplexOf (Normal (Some 5) 0) (Normal (Some 5) 1), st_shape = [2, 3],
           st_dtype = Complex64\<rparr>,
      \<lparr>global_seed = Some 5, draws = 2\<rparr>) \<and>
   random_uniform sym_backend [2, 3] (0, 1) (Some Complex128) (Some 5) fresh =
     (Inr \<lparr>st_node = ComplexOf (Uniform 0 1 (Some 5) 0) (Uniform 0 1 (Some 5) 1),
           st_shape = [2, 3], st_dtype = Complex128\<rparr>,
      \<lparr>global_seed = Some 5, draws = 2\<rparr>) \<and>
   randn sym_backend [2, 3] None (Some 5) fresh =
     (Inr \<lparr>st_node = Normal (Some 5) 0, st_shape = [2, 3], st_dtype = Float64\<rparr>,
      \<lparr>global_seed = Some 5, draws = 1\<rparr>)"
  using complex_two_draws [of "Some Complex64" sym_backend "[2, 3]" "Some 5" fresh 0 1]
    complex_two_draws [of "Some Complex128" sym_backend "[2, 3]" "Some 5" fresh 0 1]
    complex_two_draws [of None sym_backend "[2, 3]" "Some 5" fresh 0 1]
  by (simp add: or_float64_def seeded_def two_draws_def sym_tf_simps)

text \<open>
  Claim C9. With \<open>seed = 0\<close> the test \<^verbatim>\<open>if seed:\<close> fails, as it does for
  \<open>seed = None\<close>: \<open>randn\<close> and \<open>random_uniform\<close> return the same result and leave the
  same generator state as without a seed, and the seed 0 never reaches the generator.
  \<open>randn\<close> does not call \<^verbatim>\<open>set_seed\<close> at all, so any other \<^verbatim>\<open>set_seed\<close> gives the same
  outcome; \<open>random_uniform\<close> does not call it with the argument 0, so a \<^verbatim>\<open>set_seed\<close>
  that differs at 0 only gives the same outcome, and with a complex dtype it does not
  call it at all.
\<close>

theorem seed_zero_ignored:
  "randn self shape dtype (Some 0) g = randn self shape dtype None g \<and>
   random_uniform self shape boundaries dtype (Some 0) g =
     random_uniform self shape boundaries dtype None g \<and>
   randn (self\<lparr>tf := (tf self)\<lparr>tf_random_set_seed := any_set_seed\<rparr>\<rparr>) shape dtype (Some 0) g =
     randn self shape dtype (Some 0) g \<and>
   random_uniform
     (self\<lparr>tf := (tf self)\<lparr>tf_random_set_seed := (tf_random_set_seed (tf self))(0 := at_zero)\<rparr>\<rparr>)
     shape boundaries dtype (Some 0) g =
     random_uniform self shape boundaries dtype (Some 0) g \<and>
   (or_float64 dtype = Complex64 \<or> or_float64 dtype = Complex128 \<longrightarrow>
      random_uniform (self\<lparr>tf := (tf self)\<lparr>tf_random_set_seed := any_set_seed\<rparr>\<rparr>) shape boundaries
        dtype (Some 0) g =
      random_uniform self shape boundaries dtype (Some 0) g)"
  by (auto simp: randn_def random_uniform_def Let_def or_float64_def
      cong: if_cong prod.case_cong sum.case_cong)

theorem seed_zero_ignored_witness:
  "randn sym_backend [2] None (Some 0) fresh =
     (Inr \<lparr>st_node = Normal None 0, st_shape = [2], st_dtype = Float64\<rparr>,
      \<lparr>global_seed = None, draws = 1\<rparr>) \<and>
   randn sym_backend [2] None None fresh =
     (Inr \<lparr>st_node = Normal None 0, st_shape = [2], st_dtype = Float64\<rparr>,
      \<lparr>global_seed = None, draws = 1\<rparr>) \<and>
   random_uniform sym_backend [2] (0, 1) (Some Complex64) (Some 0) fresh =
     random_uniform sym_backend [2] (0, 1) (Some Complex64) None fresh"
  using seed_zero_ignored [of sym_backend "[2]" None fresh "(0, 1)" "\<lambda>s g. g" "\<lambda>g. g"]
    seed_zero_ignored [of sym_backend "[2]" "Some Complex64" fresh "(0, 1)" "\<lambda>s g. g" "\<lambda>g. g"]
  by (simp add: randn_def sym_tf_simps)

text \<open>
  Claim C2 at \<^verbatim>\<open>random_uniform(shape=(2,), dtype=tf.float64, seed=42)\<close>. The generator
  is seeded with 42 and then, on the branch of the dtypes that are not complex, with
  the constant 10; the values are drawn under seed 10, and the call with seed 7 returns
  the same tensor and leaves the same state.
\<close>

theorem random_uniform_seed_overwritten:
  "random_uniform sym_backend [2] (0, 1) (Some Float64) (Some 42) fresh =
     (Inr \<lparr>st_node = Uniform 0 1 (Some 10) 0, st_shape = [2], st_dtype = Float64\<rparr>,
      \<lparr>global_seed = Some 10, draws = 1\<rparr>) \<and>
   random_uniform sym_backend [2] (0, 1) (Some Float64) (Some 7) fresh =
     random_uniform sym_backend [2] (0, 1) (Some Float64) (Some 42) fresh"
  by (simp add: random_uniform_def sym_tf_simps)

subsection \<open>Eigensolvers\<close>

text \<open>
  What holds of the two eigensolvers: whatever the arguments, both end with a
  \<open>NotImplementedError\<close>, never with a result; on the backend that \<open>init\<close> builds the
  message of \<open>eigs\<close> names the backend and \<open>eigs\<close>.
\<close>

lemma eigensolvers_not_implemented:
  "is_NotImplementedError
     (eigs self A initial_state num_krylov_vecs numeig tol which maxiter dtype) \<and>
   is_NotImplementedError
     (eigsh_lanczos self A' initial_state' num_krylov_vecs' numeig' tol' delta ndiag
        reorthogonalize)"
  by (simp add: eigs_def eigsh_lanczos_def)

lemma eigs_message:
  "init (Some lib) = Inr \<lparr>tf = lib, name = ''tensorflow''\<rparr> \<and>
   eigs \<lparr>tf = lib, name = ''tensorflow''\<rparr> A initial_state num_krylov_vecs numeig tol which
       maxiter dtype =
     Inl (NotImplementedError ''Backend 'tensorflow' has not implemented eigs.'') \<and>
   contains ''Backend 'tensorflow' has not implemented eigs.'' ''tensorflow'' \<and>
   contains ''Backend 'tensorflow' has not implemented eigs.'' ''eigs''"
  by (simp add: init_def eigs_def format_def)

text \<open>
  Claim C3 at \<^verbatim>\<open>eigsh_lanczos(A)\<close>, on the backend that \<open>init\<close> builds on any
  library. The message of the \<open>NotImplementedError\<close> names the backend, and an operation
  \<^verbatim>\<open>eighs_lanczos\<close>: the name of the method, \<^verbatim>\<open>eigsh_lanczos\<close>, is not in it.
\<close>

theorem eigsh_lanczos_message:
  "init (Some lib) = Inr \<lparr>tf = lib, name = ''tensorflow''\<rparr> \<and>
   eigsh_lanczos \<lparr>tf = lib, name = ''tensorflow''\<rparr> A initial_state num_krylov_vecs numeig tol
       delta ndiag reorthogonalize =
     Inl (NotImplementedError ''Backend 'tensorflow' has not implemented eighs_lanczos.'') \<and>
   contains ''Backend 'tensorflow' has not implemented eighs_lanczos.'' ''tensorflow'' \<and>
   \<not> contains ''Backend 'tensorflow' has not implemented eighs_lanczos.'' ''eigsh_lanczos''"
  by (simp add: init_def eigsh_lanczos_def format_def)

end
